theory Spec2Isabelle
  imports Complex_Main
begin

section \<open>The particle background system of src/js/main.js (class ParticleSystem)\<close>

text \<open>
  JavaScript numbers are modelled as real numbers with exact arithmetic, \<open>null\<close> and
  \<open>undefined\<close> as \<open>None\<close>. The fields \<open>x\<close>, \<open>y\<close> and \<open>size\<close> of a particle are
  called \<open>px\<close>, \<open>py\<close> and \<open>psize\<close> here, every other field keeps its name. The anonymous
  listeners of \<open>setupEventListeners\<close> are called \<open>on_mousemove\<close>, \<open>on_mouseleave\<close>,
  \<open>on_resize\<close> and \<open>on_visibilitychange\<close>; the scroll listener and \<open>setMode\<close> are left out.
\<close>

subsection \<open>Data\<close>

record particle =
  px :: real
  py :: real
  vx :: real
  vy :: real
  psize :: real
  color :: "string option"
  opacity :: real
  pulse :: real

text \<open>\<open>this.mouse = { x: null, y: null }\<close>\<close>

record mouse =
  mouse_x :: "real option"
  mouse_y :: "real option"

text \<open>What the class reads from \<open>window\<close>, \<open>navigator\<close> and \<open>document\<close>.\<close>

record window =
  innerWidth :: nat
  innerHeight :: nat
  hardwareConcurrency :: "nat option"
  hidden :: bool

text \<open>
  The fields of a \<open>ParticleSystem\<close>. \<open>draws\<close> is the number of calls of
  \<open>Math.random()\<close> made so far: the generator is a sequence \<open>rnd :: nat \<Rightarrow> real\<close>
  and the call number \<open>k\<close> returns \<open>rnd k\<close>.
\<close>

record psys =
  canvas_width :: nat
  canvas_height :: nat
  particles :: "particle list"
  particleCount :: nat
  sys_mouse :: mouse
  pauseAnimation :: "bool option"
  draws :: nat

definition colors :: "string list" where
  "colors = [''#00f5ff'', ''#bf00ff'', ''#39ff14'', ''#ff007f'', ''#ff8c00'', ''#00ffaa'']"

subsection \<open>getParticleCount, createParticles\<close>

text \<open>
  \<open>navigator.hardwareConcurrency && navigator.hardwareConcurrency < 4\<close>: an undefined
  or zero value is falsy, so the device is not low end then.
\<close>

definition isLowEnd :: "window \<Rightarrow> bool" where
  "isLowEnd env =
     (case hardwareConcurrency env of
        None \<Rightarrow> False
      | Some c \<Rightarrow> c \<noteq> 0 \<and> c < 4)"

definition getParticleCount :: "window \<Rightarrow> nat" where
  "getParticleCount env =
     (let isMobile = innerWidth env < 768 in
      if isMobile \<or> isLowEnd env then 30
      else if innerWidth env < 1024 then 50
      else 80)"

definition resizeCanvas :: "window \<Rightarrow> psys \<Rightarrow> psys" where
  "resizeCanvas env s = s\<lparr>canvas_width := innerWidth env, canvas_height := innerHeight env\<rparr>"

text \<open>
  \<open>this.colors[Math.floor(Math.random() * this.colors.length)]\<close>; an index outside
  the array reads \<open>undefined\<close>.
\<close>

definition pick_color :: "real \<Rightarrow> string option" where
  "pick_color r =
     (let i = \<lfloor>r * real (length colors)\<rfloor> in
      if 0 \<le> i \<and> nat i < length colors then Some (colors ! nat i) else None)"

text \<open>The object literal pushed by \<open>createParticles\<close>; its eight draws start at \<open>k\<close>.\<close>

definition newParticle :: "(nat \<Rightarrow> real) \<Rightarrow> nat \<Rightarrow> nat \<Rightarrow> nat \<Rightarrow> particle" where
  "newParticle rnd k w h =
     \<lparr>px = rnd k * real w,
      py = rnd (k + 1) * real h,
      vx = (rnd (k + 2) - 0.5) * 0.5,
      vy = (rnd (k + 3) - 0.5) * 0.5,
      psize = rnd (k + 4) * 3 + 1,
      color = pick_color (rnd (k + 5)),
      opacity = rnd (k + 6) * 0.5 + 0.3,
      pulse = rnd (k + 7) * 0.02 + 0.01\<rparr>"

fun createParticles_loop :: "(nat \<Rightarrow> real) \<Rightarrow> nat \<Rightarrow> nat \<Rightarrow> nat \<Rightarrow> nat \<Rightarrow> particle list" where
  "createParticles_loop rnd k w h 0 = []"
| "createParticles_loop rnd k w h (Suc n) =
     newParticle rnd k w h # createParticles_loop rnd (k + 8) w h n"

definition createParticles :: "(nat \<Rightarrow> real) \<Rightarrow> psys \<Rightarrow> psys" where
  "createParticles rnd s =
     s\<lparr>particles :=
          createParticles_loop rnd (draws s) (canvas_width s) (canvas_height s) (particleCount s),
       draws := draws s + 8 * particleCount s\<rparr>"

definition init :: "window \<Rightarrow> (nat \<Rightarrow> real) \<Rightarrow> psys \<Rightarrow> psys" where
  "init env rnd s = createParticles rnd (resizeCanvas env s)"

subsection \<open>updateParticles\<close>

text \<open>
  The callback of \<open>this.particles.forEach\<close>, one definition for each commented block of
  the source, each assignment an update of the record.
\<close>

definition update_position :: "particle \<Rightarrow> particle" where
  "update_position p =
     (let p1 = p\<lparr>px := px p + vx p\<rparr> in
      p1\<lparr>py := py p1 + vy p1\<rparr>)"

definition pulse_effect :: "particle \<Rightarrow> particle" where
  "pulse_effect p =
     (let p1 = p\<lparr>opacity := opacity p + pulse p\<rparr> in
      if opacity p1 > 0.8 \<or> opacity p1 < 0.2 then p1\<lparr>pulse := pulse p1 * (- 1)\<rparr> else p1)"

definition wrap_around_edges :: "nat \<Rightarrow> nat \<Rightarrow> particle \<Rightarrow> particle" where
  "wrap_around_edges w h p =
     (let p1 = (if px p < 0 then p\<lparr>px := real w\<rparr> else p);
          p2 = (if px p1 > real w then p1\<lparr>px := 0\<rparr> else p1);
          p3 = (if py p2 < 0 then p2\<lparr>py := real h\<rparr> else p2)
      in if py p3 > real h then p3\<lparr>py := 0\<rparr> else p3)"

text \<open>The distance of the pointer, when both of its coordinates are set.\<close>

definition mouse_distance :: "mouse \<Rightarrow> particle \<Rightarrow> real option" where
  "mouse_distance m p =
     (case (mouse_x m, mouse_y m) of
        (Some mx, Some my) \<Rightarrow>
          (let dx = mx - px p; dy = my - py p in Some (sqrt (dx * dx + dy * dy)))
      | _ \<Rightarrow> None)"

text \<open>The test of the two nested \<open>if\<close>s of the block "Mouse interaction".\<close>

definition attraction_active :: "mouse \<Rightarrow> particle \<Rightarrow> bool" where
  "attraction_active m p =
     (case mouse_distance m p of Some distance \<Rightarrow> distance < 100 | None \<Rightarrow> False)"

definition mouse_interaction :: "mouse \<Rightarrow> particle \<Rightarrow> particle" where
  "mouse_interaction m p =
     (case (mouse_x m, mouse_y m) of
        (Some mx, Some my) \<Rightarrow>
          (let dx = mx - px p;
               dy = my - py p;
               distance = sqrt (dx * dx + dy * dy)
           in if distance < 100 then
                (let force = (100 - distance) / 100;
                     p1 = p\<lparr>vx := vx p + dx * force * 0.001\<rparr>;
                     p2 = p1\<lparr>vy := vy p1 + dy * force * 0.001\<rparr>;
                     maxVel = 2;
                     p3 = p2\<lparr>vx := max (- maxVel) (min maxVel (vx p2))\<rparr>
                 in p3\<lparr>vy := max (- maxVel) (min maxVel (vy p3))\<rparr>)
              else p)
      | _ \<Rightarrow> p)"

definition apply_friction :: "particle \<Rightarrow> particle" where
  "apply_friction p =
     (let p1 = p\<lparr>vx := vx p * 0.99\<rparr> in
      p1\<lparr>vy := vy p1 * 0.99\<rparr>)"

text \<open>The particle as the block "Mouse interaction" finds it: moved, pulsed and wrapped.\<close>

definition before_mouse :: "nat \<Rightarrow> nat \<Rightarrow> particle \<Rightarrow> particle" where
  "before_mouse w h p = wrap_around_edges w h (pulse_effect (update_position p))"

definition updateParticle :: "nat \<Rightarrow> nat \<Rightarrow> mouse \<Rightarrow> particle \<Rightarrow> particle" where
  "updateParticle w h m p = apply_friction (mouse_interaction m (before_mouse w h p))"

definition updateParticles :: "psys \<Rightarrow> psys" where
  "updateParticles s =
     s\<lparr>particles :=
          map (updateParticle (canvas_width s) (canvas_height s) (sys_mouse s)) (particles s)\<rparr>"

text \<open>
  One particle over several frames: \<open>ms\<close> holds the pointer of each frame, the canvas
  keeps its size.
\<close>

fun particle_run :: "nat \<Rightarrow> nat \<Rightarrow> mouse list \<Rightarrow> particle \<Rightarrow> particle" where
  "particle_run w h [] p = p"
| "particle_run w h (m # ms) p = particle_run w h ms (updateParticle w h m p)"

subsection \<open>drawParticles, drawConnections, animate\<close>

text \<open>
  What a frame sends to the 2D context: \<open>ClearRect x y w h\<close>; \<open>Stroke a x1 y1 x2 y2\<close>, a
  line from \<open>(x1, y1)\<close> to \<open>(x2, y2)\<close> stroked with \<open>globalAlpha = a\<close>; \<open>Arc a c x y r\<close>, a
  disc of radius \<open>r\<close> at \<open>(x, y)\<close> filled with \<open>globalAlpha = a\<close> in the colour \<open>c\<close>.
\<close>

datatype draw_cmd =
    ClearRect real real real real
  | Stroke real real real real real
  | Arc real "string option" real real real

definition maxDistance :: real where
  "maxDistance = 120"

text \<open>\<open>distance\<close> as the inner loop of \<open>drawConnections\<close> computes it for \<open>i\<close> and \<open>j\<close>.\<close>

definition pair_distance :: "particle list \<Rightarrow> nat \<Rightarrow> nat \<Rightarrow> real" where
  "pair_distance ps i j =
     (let dx = px (ps ! i) - px (ps ! j);
          dy = py (ps ! i) - py (ps ! j)
      in sqrt (dx * dx + dy * dy))"

text \<open>
  The two nested loops of \<open>drawConnections\<close>: the lines stroked, in order, each with the
  indices of its two particles and its \<open>globalAlpha\<close>.
\<close>

definition connections :: "particle list \<Rightarrow> (nat \<times> nat \<times> real) list" where
  "connections ps =
     concat (map (\<lambda>i.
       concat (map (\<lambda>j.
         (let distance = pair_distance ps i j in
          if distance < maxDistance
          then (let opacity = (1 - distance / maxDistance) * 0.2 in [(i, j, opacity)])
          else []))
         [i + 1 ..< length ps]))
       [0 ..< length ps])"

definition drawConnections :: "particle list \<Rightarrow> draw_cmd list" where
  "drawConnections ps =
     map (\<lambda>(i, j, a). Stroke a (px (ps ! i)) (py (ps ! i)) (px (ps ! j)) (py (ps ! j)))
       (connections ps)"

definition drawParticles :: "psys \<Rightarrow> draw_cmd list" where
  "drawParticles s =
     ClearRect 0 0 (real (canvas_width s)) (real (canvas_height s))
     # drawConnections (particles s)
     @ concat (map (\<lambda>p. [Arc (opacity p) (color p) (px p) (py p) (psize p),
                            Arc (opacity p) (color p) (px p) (py p) (psize p * 0.5)])
         (particles s))"

text \<open>
  One call of \<open>animate\<close>: the state after it, what it drew, and whether it called
  \<open>requestAnimationFrame\<close> for the next frame.
\<close>

record frame =
  after :: psys
  drawn :: "draw_cmd list"
  rescheduled :: bool

definition animate :: "psys \<Rightarrow> frame" where
  "animate s =
     (let s1 = updateParticles s in
      \<lparr>after = s1, drawn = drawParticles s1, rescheduled = True\<rparr>)"

subsection \<open>The constructor and the event listeners\<close>



definition on_resize :: "window \<Rightarrow> (nat \<Rightarrow> real) \<Rightarrow> psys \<Rightarrow> psys" where
  "on_resize env rnd s =
     (let s1 = resizeCanvas env s;
          s2 = s1\<lparr>particleCount := getParticleCount env\<rparr>
      in createParticles rnd s2)"

definition on_visibilitychange :: "window \<Rightarrow> psys \<Rightarrow> psys" where
  "on_visibilitychange env s =
     (if hidden env then s\<lparr>pauseAnimation := Some True\<rparr>
      else s\<lparr>pauseAnimation := Some False\<rparr>)"

text \<open>
  \<open>new ParticleSystem()\<close>: the fields are set, then \<open>init\<close> and the first \<open>animate\<close>
  run. A canvas element is 300 by 150 until \<open>resizeCanvas\<close> sets its size, and the
  generator is at its first number.
\<close>

definition new_ParticleSystem :: "window \<Rightarrow> (nat \<Rightarrow> real) \<Rightarrow> psys" where
  "new_ParticleSystem env rnd =
     (let s = \<lparr>canvas_width = 300, canvas_height = 150, particles = [],
               particleCount = getParticleCount env,
               sys_mouse = \<lparr>mouse_x = None, mouse_y = None\<rparr>,
               pauseAnimation = None, draws = 0\<rparr>
      in after (animate (init env rnd s)))"




subsection \<open>createExplosion\<close>

record eparticle =
  ex :: real
  ey :: real
  evx :: real
  evy :: real
  esize :: real
  ecolor :: "string option"
  eopacity :: real
  life :: real
  decay :: real

text \<open>The particle number \<open>i\<close> of the burst; its four draws start at \<open>k\<close>.\<close>

definition newExplosionParticle :: "(nat \<Rightarrow> real) \<Rightarrow> nat \<Rightarrow> real \<Rightarrow> real \<Rightarrow> nat \<Rightarrow> eparticle" where
  "newExplosionParticle rnd k x y i =
     (let particleCount = 15;
          angle = (pi * 2 * real i) / particleCount;
          velocity = rnd k * 5 + 2
      in \<lparr>ex = x, ey = y,
          evx = cos angle * velocity,
          evy = sin angle * velocity,
          esize = rnd (k + 1) * 4 + 2,
          ecolor = pick_color (rnd (k + 2)),
          eopacity = 1,
          life = 1,
          decay = rnd (k + 3) * 0.02 + 0.01\<rparr>)"

definition createExplosion :: "(nat \<Rightarrow> real) \<Rightarrow> nat \<Rightarrow> real \<Rightarrow> real \<Rightarrow> eparticle list" where
  "createExplosion rnd k x y = map (\<lambda>i. newExplosionParticle rnd (k + 4 * i) x y i) [0 ..< 15]"

text \<open>The assignments of the callback of \<open>explosionParticles.forEach\<close>.\<close>

definition explosion_move :: "eparticle \<Rightarrow> eparticle" where
  "explosion_move p =
     (let p1 = p\<lparr>ex := ex p + evx p\<rparr>;
          p2 = p1\<lparr>ey := ey p1 + evy p1\<rparr>;
          p3 = p2\<lparr>evx := evx p2 * 0.98\<rparr>;
          p4 = p3\<lparr>evy := evy p3 * 0.98\<rparr>;
          p5 = p4\<lparr>life := life p4 - decay p4\<rparr>
      in p5\<lparr>eopacity := life p5\<rparr>)"

text \<open>\<open>explosionParticles.splice(index, 1)\<close>\<close>

definition splice1 :: "nat \<Rightarrow> 'a list \<Rightarrow> 'a list" where
  "splice1 index xs = take index xs @ drop (index + 1) xs"

text \<open>
  \<open>Array.prototype.forEach\<close> reads the length once, then visits the indices
  \<open>0, 1, ...\<close> below it, and calls the callback at an index only when the array still has
  an element there. \<open>n\<close> counts the indices left to visit, \<open>index\<close> is the next one.
\<close>

fun forEach_splice :: "nat \<Rightarrow> nat \<Rightarrow> eparticle list \<Rightarrow> eparticle list" where
  "forEach_splice 0 index ps = ps"
| "forEach_splice (Suc n) index ps =
     (if index < length ps then
        (let particle = explosion_move (ps ! index);
             ps1 = ps[index := particle]
         in forEach_splice n (index + 1)
              (if life particle \<le> 0 then splice1 index ps1 else ps1))
      else forEach_splice n (index + 1) ps)"

text \<open>
  One call of \<open>animateExplosion\<close>: the array after it, and whether it asked for another
  frame.
\<close>

definition animateExplosion :: "eparticle list \<Rightarrow> eparticle list \<times> bool" where
  "animateExplosion ps =
     (let ps1 = forEach_splice (length ps) 0 ps in (ps1, length ps1 > 0))"

text \<open>The array after \<open>n\<close> frames, or after the last frame when there are fewer.\<close>

fun explosion_frames :: "nat \<Rightarrow> eparticle list \<Rightarrow> eparticle list" where
  "explosion_frames 0 ps = ps"
| "explosion_frames (Suc n) ps =
     (case animateExplosion ps of
        (ps1, again) \<Rightarrow> if again then explosion_frames n ps1 else ps1)"

subsection \<open>Auxiliary definitions\<close>

text \<open>
  What \<open>forEach\<close> with \<open>splice\<close> in its callback does to a list, without indices: \<open>f\<close> is
  applied to the head; when the result is dead it is dropped and the element behind it is
  kept as it is, not visited in this pass.
\<close>

fun sweep :: "('a \<Rightarrow> 'a) \<Rightarrow> ('a \<Rightarrow> bool) \<Rightarrow> 'a list \<Rightarrow> 'a list" where
  "sweep f dead [] = []"
| "sweep f dead [p] = (if dead (f p) then [] else [f p])"
| "sweep f dead (p # q # qs) =
     (if dead (f p) then q # sweep f dead qs else f p # sweep f dead (q # qs))"

fun sweeps :: "nat \<Rightarrow> ('a \<Rightarrow> 'a) \<Rightarrow> ('a \<Rightarrow> bool) \<Rightarrow> 'a list \<Rightarrow> 'a list" where
  "sweeps 0 f dead ps = ps"
| "sweeps (Suc n) f dead ps =
     (case sweep f dead ps of [] \<Rightarrow> [] | p # qs \<Rightarrow> sweeps n f dead (p # qs))"

text \<open>The life and the decay of an explosion particle, and what a frame does to them.\<close>

definition life_decay :: "eparticle \<Rightarrow> real \<times> real" where
  "life_decay p = (life p, decay p)"

definition tick :: "real \<times> real \<Rightarrow> real \<times> real" where
  "tick l = (fst l - snd l, snd l)"

definition spent :: "real \<times> real \<Rightarrow> bool" where
  "spent l \<longleftrightarrow> fst l \<le> 0"

text \<open>Concrete inputs for the examples below.\<close>

definition example_particle :: "real \<Rightarrow> real \<Rightarrow> real \<Rightarrow> real \<Rightarrow> particle" where
  "example_particle x y u v =
     \<lparr>px = x, py = y, vx = u, vy = v, psize = 2, color = Some ''#00f5ff'',
      opacity = 1 / 2, pulse = 1 / 50\<rparr>"

definition pointer_at :: "real \<Rightarrow> real \<Rightarrow> mouse" where
  "pointer_at x y = \<lparr>mouse_x = Some x, mouse_y = Some y\<rparr>"

definition no_pointer :: mouse where
  "no_pointer = \<lparr>mouse_x = None, mouse_y = None\<rparr>"

definition example_window :: "nat \<Rightarrow> bool \<Rightarrow> window" where
  "example_window w hid =
     \<lparr>innerWidth = w, innerHeight = 600, hardwareConcurrency = Some 8, hidden = hid\<rparr>"

section \<open>Lemmas\<close>

subsection \<open>Square roots of the two thresholds\<close>

lemma sqrt_less_100: "sqrt x < 100 \<longleftrightarrow> x < 10000"
proof -
  have "sqrt 10000 = 100" by (rule real_sqrt_unique) simp_all
  then show ?thesis by (metis real_sqrt_less_iff)
qed

lemma sqrt_ge_100: "100 \<le> sqrt x \<longleftrightarrow> 10000 \<le> x"
  using sqrt_less_100 [of x] by linarith

lemma sqrt_14400: "sqrt 14400 = 120"
  by (rule real_sqrt_unique) simp_all

lemmas example_defs = example_particle_def pointer_at_def no_pointer_def example_window_def

subsection \<open>The fields after each block of the update\<close>

lemma update_position_fields:
  "px (update_position p) = px p + vx p" "py (update_position p) = py p + vy p"
  "vx (update_position p) = vx p" "vy (update_position p) = vy p"
  "psize (update_position p) = psize p" "color (update_position p) = color p"
  "opacity (update_position p) = opacity p" "pulse (update_position p) = pulse p"
  by (simp_all add: update_position_def Let_def)

lemma pulse_effect_fields:
  "px (pulse_effect p) = px p" "py (pulse_effect p) = py p"
  "vx (pulse_effect p) = vx p" "vy (pulse_effect p) = vy p"
  "psize (pulse_effect p) = psize p" "color (pulse_effect p) = color p"
  "opacity (pulse_effect p) = opacity p + pulse p"
  "pulse (pulse_effect p) =
     (if opacity p + pulse p > 0.8 \<or> opacity p + pulse p < 0.2 then - pulse p else pulse p)"
  by (simp_all add: pulse_effect_def Let_def)

lemma wrap_around_edges_fields:
  "px (wrap_around_edges w h p) = (if px p < 0 then real w else if real w < px p then 0 else px p)"
  "py (wrap_around_edges w h p) = (if py p < 0 then real h else if real h < py p then 0 else py p)"
  "vx (wrap_around_edges w h p) = vx p" "vy (wrap_around_edges w h p) = vy p"
  "psize (wrap_around_edges w h p) = psize p" "color (wrap_around_edges w h p) = color p"
  "opacity (wrap_around_edges w h p) = opacity p" "pulse (wrap_around_edges w h p) = pulse p"
  by (simp_all add: wrap_around_edges_def Let_def)

lemma mouse_interaction_fields:
  "px (mouse_interaction m p) = px p" "py (mouse_interaction m p) = py p"
  "psize (mouse_interaction m p) = psize p" "color (mouse_interaction m p) = color p"
  "opacity (mouse_interaction m p) = opacity p" "pulse (mouse_interaction m p) = pulse p"
  by (simp_all add: mouse_interaction_def Let_def split: option.splits)

lemma apply_friction_fields:
  "px (apply_friction p) = px p" "py (apply_friction p) = py p"
  "vx (apply_friction p) = vx p * 0.99" "vy (apply_friction p) = vy p * 0.99"
  "psize (apply_friction p) = psize p" "color (apply_friction p) = color p"
  "opacity (apply_friction p) = opacity p" "pulse (apply_friction p) = pulse p"
  by (simp_all add: apply_friction_def Let_def)

lemmas phase_fields = update_position_fields pulse_effect_fields wrap_around_edges_fields
  mouse_interaction_fields apply_friction_fields

lemma before_mouse_velocity:
  "vx (before_mouse w h p) = vx p" "vy (before_mouse w h p) = vy p"
  by (simp_all add: before_mouse_def phase_fields)

lemma before_mouse_position:
  "px (before_mouse w h p) =
     (if px p + vx p < 0 then real w else if real w < px p + vx p then 0 else px p + vx p)"
  "py (before_mouse w h p) =
     (if py p + vy p < 0 then real h else if real h < py p + vy p then 0 else py p + vy p)"
  by (simp_all add: before_mouse_def phase_fields)

lemma updateParticle_position:
  "px (updateParticle w h m p) = px (before_mouse w h p)"
  "py (updateParticle w h m p) = py (before_mouse w h p)"
  by (simp_all add: updateParticle_def phase_fields)

lemma updateParticle_size_color:
  "psize (updateParticle w h m p) = psize p" "color (updateParticle w h m p) = color p"
  by (simp_all add: updateParticle_def before_mouse_def phase_fields)

lemma updateParticle_opacity:
  "opacity (updateParticle w h m p) = opacity p + pulse p"
  "pulse (updateParticle w h m p) =
     (if opacity p + pulse p > 0.8 \<or> opacity p + pulse p < 0.2 then - pulse p else pulse p)"
  by (simp_all add: updateParticle_def before_mouse_def phase_fields)

lemma updateParticle_no_pointer:
  "mouse_x m = None \<Longrightarrow> updateParticle w h m p = apply_friction (before_mouse w h p)"
  by (simp add: updateParticle_def mouse_interaction_def)

lemma particle_run_snoc:
  "particle_run w h (ms @ [m]) p = updateParticle w h m (particle_run w h ms p)"
  by (induction ms arbitrary: p) simp_all

subsection \<open>The pointer block\<close>

lemma mouse_interaction_active:
  assumes "attraction_active m p"
  shows "\<bar>vx (mouse_interaction m p)\<bar> \<le> 2 \<and> \<bar>vy (mouse_interaction m p)\<bar> \<le> 2"
  using assms
  by (auto simp: attraction_active_def mouse_distance_def mouse_interaction_def Let_def
           split: option.splits)

lemma mouse_interaction_inactive:
  assumes "\<not> attraction_active m p"
  shows "mouse_interaction m p = p"
  using assms
  by (auto simp: attraction_active_def mouse_distance_def mouse_interaction_def Let_def
           split: option.splits)

lemma updateParticle_active:
  assumes "attraction_active m (before_mouse w h p)"
  shows "\<bar>vx (updateParticle w h m p)\<bar> \<le> 2 \<and> \<bar>vy (updateParticle w h m p)\<bar> \<le> 2"
proof -
  let ?q = "mouse_interaction m (before_mouse w h p)"
  from mouse_interaction_active [OF assms]
  have "\<bar>vx ?q\<bar> \<le> 2" and "\<bar>vy ?q\<bar> \<le> 2" by simp_all
  then have "\<bar>vx ?q * 0.99\<bar> \<le> 2" and "\<bar>vy ?q * 0.99\<bar> \<le> 2"
    by (simp_all add: abs_mult)
  then show ?thesis
    by (simp add: updateParticle_def apply_friction_fields)
qed

lemma mouse_interaction_near:
  assumes "mouse_x m = Some mx" "mouse_y m = Some my"
    and "sqrt ((mx - px p)\<^sup>2 + (my - py p)\<^sup>2) < 100"
  shows "vx (mouse_interaction m p) =
           max (- 2) (min 2 (vx p
             + 0.001 * ((100 - sqrt ((mx - px p)\<^sup>2 + (my - py p)\<^sup>2)) / 100) * (mx - px p)))"
    and "vy (mouse_interaction m p) =
           max (- 2) (min 2 (vy p
             + 0.001 * ((100 - sqrt ((mx - px p)\<^sup>2 + (my - py p)\<^sup>2)) / 100) * (my - py p)))"
  using assms
  by (simp_all add: mouse_interaction_def Let_def power2_eq_square mult.commute)

lemma mouse_interaction_far:
  assumes "mouse_x m = None \<or> mouse_y m = None
           \<or> (mouse_x m = Some mx \<and> mouse_y m = Some my
               \<and> 100 \<le> sqrt ((mx - px p)\<^sup>2 + (my - py p)\<^sup>2))"
  shows "mouse_interaction m p = p"
  using assms
  by (auto simp: mouse_interaction_def Let_def power2_eq_square split: option.splits)

lemma sqrt_25: "sqrt 25 = 5"
  by (rule real_sqrt_unique) simp_all

lemma sqrt_2500: "sqrt 2500 = 50"
  by (rule real_sqrt_unique) simp_all

subsection \<open>The opacity oscillation\<close>

lemma opacity_invariant_step:
  assumes "0.2 - \<bar>pulse p\<bar> \<le> opacity p" "opacity p \<le> 0.8 + \<bar>pulse p\<bar>"
    "0.8 < opacity p \<longrightarrow> pulse p < 0" "opacity p < 0.2 \<longrightarrow> 0 < pulse p"
  shows "0.2 - \<bar>pulse (updateParticle w h m p)\<bar> \<le> opacity (updateParticle w h m p)
       \<and> opacity (updateParticle w h m p) \<le> 0.8 + \<bar>pulse (updateParticle w h m p)\<bar>
       \<and> (0.8 < opacity (updateParticle w h m p) \<longrightarrow> pulse (updateParticle w h m p) < 0)
       \<and> (opacity (updateParticle w h m p) < 0.2 \<longrightarrow> 0 < pulse (updateParticle w h m p))
       \<and> \<bar>pulse (updateParticle w h m p)\<bar> = \<bar>pulse p\<bar>"
  using assms unfolding updateParticle_opacity
  by (auto simp: abs_if split: if_splits)

lemma opacity_invariant_run:
  assumes "0.2 - \<bar>pulse p\<bar> \<le> opacity p" "opacity p \<le> 0.8 + \<bar>pulse p\<bar>"
    "0.8 < opacity p \<longrightarrow> pulse p < 0" "opacity p < 0.2 \<longrightarrow> 0 < pulse p"
  shows "0.2 - \<bar>pulse (particle_run w h ms p)\<bar> \<le> opacity (particle_run w h ms p)
       \<and> opacity (particle_run w h ms p) \<le> 0.8 + \<bar>pulse (particle_run w h ms p)\<bar>
       \<and> (0.8 < opacity (particle_run w h ms p) \<longrightarrow> pulse (particle_run w h ms p) < 0)
       \<and> (opacity (particle_run w h ms p) < 0.2 \<longrightarrow> 0 < pulse (particle_run w h ms p))
       \<and> \<bar>pulse (particle_run w h ms p)\<bar> = \<bar>pulse p\<bar>"
  using assms
proof (induction ms arbitrary: p)
  case Nil
  then show ?case by simp
next
  case (Cons m ms)
  from opacity_invariant_step [OF Cons.prems, of w h m]
  have step: "0.2 - \<bar>pulse (updateParticle w h m p)\<bar> \<le> opacity (updateParticle w h m p)"
     "opacity (updateParticle w h m p) \<le> 0.8 + \<bar>pulse (updateParticle w h m p)\<bar>"
     "0.8 < opacity (updateParticle w h m p) \<longrightarrow> pulse (updateParticle w h m p) < 0"
     "opacity (updateParticle w h m p) < 0.2 \<longrightarrow> 0 < pulse (updateParticle w h m p)"
     and same: "\<bar>pulse (updateParticle w h m p)\<bar> = \<bar>pulse p\<bar>"
    by simp_all
  from Cons.IH [OF step] same show ?case by simp
qed

subsection \<open>Connections\<close>

lemma connections_iff:
  "(i, j, a) \<in> set (connections ps) \<longleftrightarrow>
     i < j \<and> j < length ps \<and> pair_distance ps i j < 120
     \<and> a = (1 - pair_distance ps i j / 120) * 0.2"
  by (auto simp: connections_def maxDistance_def Let_def split: if_splits)

subsection \<open>Creation and the constructor\<close>

lemma length_createParticles_loop: "length (createParticles_loop rnd k w h n) = n"
  by (induction n arbitrary: k) simp_all

lemma createParticles_loop_numeral:
  "createParticles_loop rnd k w h (numeral n) =
     newParticle rnd k w h # createParticles_loop rnd (k + 8) w h (pred_numeral n)"
  by (simp add: numeral_eq_Suc)


lemma on_resize_fields:
  "particleCount (on_resize env rnd s) = getParticleCount env"
  "particles (on_resize env rnd s) =
     createParticles_loop rnd (draws s) (innerWidth env) (innerHeight env) (getParticleCount env)"
  "canvas_width (on_resize env rnd s) = innerWidth env"
  "canvas_height (on_resize env rnd s) = innerHeight env"
  by (simp_all add: on_resize_def createParticles_def resizeCanvas_def Let_def)

lemma new_ParticleSystem_fields:
  "canvas_width (new_ParticleSystem env rnd) = innerWidth env"
  "canvas_height (new_ParticleSystem env rnd) = innerHeight env"
  "sys_mouse (new_ParticleSystem env rnd) = \<lparr>mouse_x = None, mouse_y = None\<rparr>"
  "particles (new_ParticleSystem env rnd) =
     map (updateParticle (innerWidth env) (innerHeight env) \<lparr>mouse_x = None, mouse_y = None\<rparr>)
       (createParticles_loop rnd 0 (innerWidth env) (innerHeight env) (getParticleCount env))"
  by (simp_all add: new_ParticleSystem_def init_def createParticles_def resizeCanvas_def
        animate_def updateParticles_def Let_def)

lemma hidden_frame_fields:
  "pauseAnimation (on_visibilitychange (env\<lparr>hidden := True\<rparr>) s) = Some True"
  "particles (after (animate (on_visibilitychange (env\<lparr>hidden := True\<rparr>) s))) =
     map (updateParticle (canvas_width s) (canvas_height s) (sys_mouse s)) (particles s)"
  "drawn (animate s) \<noteq> []"
  "rescheduled (animate s)"
  by (simp_all add: on_visibilitychange_def animate_def updateParticles_def drawParticles_def Let_def)

subsection \<open>The explosion loop\<close>

lemma sweeps_numeral:
  "sweeps (numeral k) f dead ps =
     (case sweep f dead ps of [] \<Rightarrow> [] | p # qs \<Rightarrow> sweeps (pred_numeral k) f dead (p # qs))"
  by (simp add: numeral_eq_Suc)

lemma sweep_Cons:
  "sweep f dead (p # ps) =
     (if dead (f p) then (case ps of [] \<Rightarrow> [] | q # qs \<Rightarrow> q # sweep f dead qs)
      else f p # sweep f dead ps)"
  by (cases ps) simp_all

text \<open>The loop over indices is the sweep of the part of the array not yet visited.\<close>

lemma forEach_splice_sweep:
  "length ps - k \<le> n \<Longrightarrow>
   forEach_splice n k ps = take k ps @ sweep explosion_move (\<lambda>p. life p \<le> 0) (drop k ps)"
proof (induction n arbitrary: k ps)
  case 0
  then show ?case by simp
next
  case (Suc n)
  show ?case
  proof (cases "k < length ps")
    case False
    with Suc.IH [of ps "k + 1"] show ?thesis by simp
  next
    case True
    let ?p = "explosion_move (ps ! k)"
    let ?ps1 = "ps[k := ?p]"
    have dropk: "drop k ps = ps ! k # drop (Suc k) ps"
      using True by (simp add: Cons_nth_drop_Suc)
    have ps1: "take k ?ps1 = take k ps" "drop (Suc k) ?ps1 = drop (Suc k) ps"
      by simp_all
    show ?thesis
    proof (cases "life ?p \<le> 0")
      case dead: True
      let ?ps2 = "take k ps @ drop (Suc k) ps"
      have len: "length ?ps2 - (k + 1) \<le> n"
        using Suc.prems True by simp
      have step: "forEach_splice (Suc n) k ps = forEach_splice n (k + 1) ?ps2"
        using True dead by (simp add: Let_def splice1_def)
      have tk: "length (take k ps) = k" using True by simp
      show ?thesis
      proof (cases "drop (Suc k) ps")
        case Nil
        with Suc.IH [OF len] step dead dropk tk show ?thesis
          by (simp add: sweep_Cons)
      next
        case (Cons q qs)
        with Suc.IH [OF len] step dead dropk tk show ?thesis
          by (simp add: sweep_Cons)
      qed
    next
      case alive: False
      have len: "length ?ps1 - (k + 1) \<le> n"
        using Suc.prems by simp
      have step: "forEach_splice (Suc n) k ps = forEach_splice n (k + 1) ?ps1"
        using True alive by (simp add: Let_def)
      have "take (k + 1) ?ps1 = take k ps @ [?p]"
        using True by (simp add: take_Suc_conv_app_nth)
      with Suc.IH [OF len] step alive dropk ps1 show ?thesis
        by (simp add: sweep_Cons)
    qed
  qed
qed

lemma animateExplosion_sweep:
  "animateExplosion ps =
     (sweep explosion_move (\<lambda>p. life p \<le> 0) ps,
      sweep explosion_move (\<lambda>p. life p \<le> 0) ps \<noteq> [])"
  by (simp add: animateExplosion_def Let_def forEach_splice_sweep)

lemma explosion_frames_sweeps:
  "explosion_frames n ps = sweeps n explosion_move (\<lambda>p. life p \<le> 0) ps"
  by (induction n arbitrary: ps) (simp_all add: animateExplosion_sweep split: list.splits)

lemma life_decay_move: "life_decay (explosion_move p) = tick (life_decay p)"
  by (simp add: life_decay_def tick_def explosion_move_def Let_def)

lemma map_sweep:
  "map life_decay (sweep explosion_move (\<lambda>p. life p \<le> 0) ps) = sweep tick spent (map life_decay ps)"
proof (induction ps rule: induct_list012)
  case 1
  then show ?case by simp
next
  case (2 p)
  show ?case
    by (simp add: life_decay_move [symmetric]) (simp add: life_decay_def spent_def)
next
  case (3 p q qs)
  have "spent (tick (life_decay p)) \<longleftrightarrow> life (explosion_move p) \<le> 0"
    by (simp add: life_decay_move [symmetric]) (simp add: life_decay_def spent_def)
  with 3 show ?case
    by (simp add: life_decay_move)
qed

lemma map_sweeps:
  "map life_decay (sweeps n explosion_move (\<lambda>p. life p \<le> 0) ps) = sweeps n tick spent (map life_decay ps)"
proof (induction n arbitrary: ps)
  case 0
  then show ?case by simp
next
  case (Suc n)
  show ?case
  proof (cases "sweep explosion_move (\<lambda>p. life p \<le> 0) ps")
    case Nil
    with map_sweep [of ps] show ?thesis by simp
  next
    case (Cons q qs)
    with map_sweep [of ps]
    have "sweep tick spent (map life_decay ps) = life_decay q # map life_decay qs" by simp
    with Cons Suc.IH [of "q # qs"] show ?thesis by simp
  qed
qed

lemma life_decay_explosion_frames:
  "map life_decay (explosion_frames n ps) = sweeps n tick spent (map life_decay ps)"
  by (simp add: explosion_frames_sweeps map_sweeps)

lemma upt_15: "[0 ..< 15] = [0, 1, 2, 3, 4, 5, 6, 7, 8, 9, 10, 11, 12, 13, 14::nat]"
  by code_simp

lemma life_decay_createExplosion:
  "map life_decay (createExplosion (\<lambda>k. 3 / 5) 0 x y) =
     [(1, 11 / 500), (1, 11 / 500), (1, 11 / 500), (1, 11 / 500), (1, 11 / 500),
      (1, 11 / 500), (1, 11 / 500), (1, 11 / 500), (1, 11 / 500), (1, 11 / 500),
      (1, 11 / 500), (1, 11 / 500), (1, 11 / 500), (1, 11 / 500), (1, 11 / 500)]"
  by (simp add: createExplosion_def upt_15 newExplosionParticle_def life_decay_def Let_def)

lemma survivors_46:
  "map life_decay (explosion_frames 46 (createExplosion (\<lambda>k. 3 / 5) 0 400 300)) =
     [(1 / 100, 11 / 500), (1 / 100, 11 / 500), (1 / 100, 11 / 500), (1 / 100, 11 / 500),
      (1 / 100, 11 / 500), (1 / 100, 11 / 500), (1 / 100, 11 / 500)]"
  unfolding life_decay_explosion_frames life_decay_createExplosion
  by (simp add: sweeps_numeral tick_def spent_def)

lemma survivors_48:
  "map life_decay (explosion_frames 48 (createExplosion (\<lambda>k. 3 / 5) 0 400 300)) =
     [(1 / 100, 11 / 500)]"
  unfolding life_decay_explosion_frames life_decay_createExplosion
  by (simp add: sweeps_numeral tick_def spent_def)

lemma survivors_49:
  "map life_decay (explosion_frames 49 (createExplosion (\<lambda>k. 3 / 5) 0 400 300)) = []"
  unfolding life_decay_explosion_frames life_decay_createExplosion
  by (simp add: sweeps_numeral tick_def spent_def)

section \<open>Properties of the simulation\<close>

subsection \<open>Velocity\<close>

text \<open>
  C1. Take one particle through the frames whose pointers are \<open>ms\<close>. If in every frame the
  pointer is set and closer than 100 to the particle, as the block "Mouse interaction"
  measures it, then after every frame \<open>|vx| \<le> 2\<close> and \<open>|vy| \<le> 2\<close>. The starting particle
  is arbitrary.
\<close>

theorem velocity_bounded_under_attraction:
  assumes "\<forall>k < length ms.
             attraction_active (ms ! k) (before_mouse w h (particle_run w h (take k ms) p))"
    and "0 < n" and "n \<le> length ms"
  shows "\<bar>vx (particle_run w h (take n ms) p)\<bar> \<le> 2 \<and> \<bar>vy (particle_run w h (take n ms) p)\<bar> \<le> 2"
proof -
  from \<open>0 < n\<close> obtain k where n: "n = Suc k" by (cases n) simp_all
  with \<open>n \<le> length ms\<close> have k: "k < length ms" by simp
  then have "take n ms = take k ms @ [ms ! k]"
    by (simp add: n take_Suc_conv_app_nth)
  moreover from assms(1) k
  have "attraction_active (ms ! k) (before_mouse w h (particle_run w h (take k ms) p))" by blast
  ultimately show ?thesis
    by (simp add: particle_run_snoc updateParticle_active)
qed

text \<open>
  A particle at \<open>(10, 20)\<close> moving by \<open>(1, -1)\<close> with the pointer at \<open>(14, 23)\<close>: after the
  move the pointer is at distance 5.
\<close>

theorem velocity_bounded_under_attraction_witness:
  "attraction_active (pointer_at 14 23) (before_mouse 800 600 (example_particle 10 20 1 (- 1)))
   \<and> mouse_distance (pointer_at 14 23) (before_mouse 800 600 (example_particle 10 20 1 (- 1)))
       = Some (sqrt 25)
   \<and> \<bar>vx (particle_run 800 600 [pointer_at 14 23] (example_particle 10 20 1 (- 1)))\<bar> \<le> 2
   \<and> \<bar>vy (particle_run 800 600 [pointer_at 14 23] (example_particle 10 20 1 (- 1)))\<bar> \<le> 2"
  using velocity_bounded_under_attraction
          [of "[pointer_at 14 23]" 800 600 "example_particle 10 20 1 (- 1)" 1]
  by (simp add: example_defs attraction_active_def mouse_distance_def before_mouse_def
        phase_fields Let_def sqrt_less_100)

text \<open>
  C10. In a frame where the pointer is not set, or is at distance 100 or more from the
  moved particle, each velocity component is multiplied by 0.99 and nothing else, so
  neither component grows in magnitude.
\<close>

theorem friction_only_without_attraction:
  assumes "case mouse_distance m (before_mouse w h p) of None \<Rightarrow> True | Some d \<Rightarrow> 100 \<le> d"
  shows "vx (updateParticle w h m p) = vx p * 0.99 \<and> vy (updateParticle w h m p) = vy p * 0.99
       \<and> \<bar>vx (updateParticle w h m p)\<bar> \<le> \<bar>vx p\<bar> \<and> \<bar>vy (updateParticle w h m p)\<bar> \<le> \<bar>vy p\<bar>"
proof -
  from assms have "\<not> attraction_active m (before_mouse w h p)"
    by (simp add: attraction_active_def split: option.splits)
  then have "mouse_interaction m (before_mouse w h p) = before_mouse w h p"
    by (rule mouse_interaction_inactive)
  then have v: "vx (updateParticle w h m p) = vx p * 0.99" "vy (updateParticle w h m p) = vy p * 0.99"
    by (simp_all add: updateParticle_def apply_friction_fields before_mouse_velocity)
  show ?thesis
    by (simp only: v) (simp add: abs_mult)
qed

text \<open>The same particle with the pointer at \<open>(500, 20)\<close>, farther than 100.\<close>

theorem friction_only_without_attraction_witness:
  "(case mouse_distance (pointer_at 500 20) (before_mouse 800 600 (example_particle 10 20 1 (- 1)))
      of None \<Rightarrow> True | Some d \<Rightarrow> 100 \<le> d)
   \<and> vx (updateParticle 800 600 (pointer_at 500 20) (example_particle 10 20 1 (- 1))) = 1 * 0.99
   \<and> vy (updateParticle 800 600 (pointer_at 500 20) (example_particle 10 20 1 (- 1))) = - 1 * 0.99
   \<and> \<bar>vx (updateParticle 800 600 (pointer_at 500 20) (example_particle 10 20 1 (- 1)))\<bar> \<le> \<bar>1\<bar>
   \<and> \<bar>vy (updateParticle 800 600 (pointer_at 500 20) (example_particle 10 20 1 (- 1)))\<bar> \<le> \<bar>- 1\<bar>"
  using friction_only_without_attraction
          [of "pointer_at 500 20" 800 600 "example_particle 10 20 1 (- 1)"]
  by (simp add: example_defs mouse_distance_def before_mouse_def phase_fields Let_def sqrt_ge_100)

subsection \<open>Position\<close>

text \<open>
  C2, as the code has it. After every update of a particle its position lies in the closed
  rectangle: \<open>0 \<le> x \<le> canvas.width\<close> and \<open>0 \<le> y \<le> canvas.height\<close>. A particle that leaves
  on the left or at the top is put on the right or the bottom edge itself.
\<close>

theorem wrap_closed_interval:
  "0 \<le> px (updateParticle w h m p) \<and> px (updateParticle w h m p) \<le> real w
   \<and> 0 \<le> py (updateParticle w h m p) \<and> py (updateParticle w h m p) \<le> real h"
  by (simp add: updateParticle_def before_mouse_def phase_fields)

text \<open>
  C2 as stated fails: on a canvas of 800 by 600 a particle created at \<open>x = 0.1\<close> with
  \<open>vx = -0.2\<close> is at \<open>x = 800\<close> after its first update, which is not below the width.
\<close>

theorem wrap_half_open_counterexample:
  "\<not> px (updateParticle 800 600 no_pointer
           (newParticle (\<lambda>k. if k = 0 then 1 / 8000 else if k = 2 then 1 / 10 else 1 / 2)
              0 800 600)) < real 800"
  by (simp add: updateParticle_def before_mouse_def phase_fields newParticle_def)

subsection \<open>Opacity\<close>

text \<open>
  C3, as the code has it. Let \<open>q\<close> be a particle made by \<open>createParticles\<close> from random
  numbers in \<open>[0, 1)\<close> and then updated any number of times. The magnitude of its delta is
  the one it was created with, at least 0.01 and below 0.03, and its opacity leaves
  \<open>[0.2, 0.8]\<close> by at most one delta: \<open>0.2 - |delta| \<le> opacity \<le> 0.8 + |delta|\<close>. The next
  update adds the delta to the opacity without clamping, flips the sign of the delta exactly
  when the new opacity is outside \<open>[0.2, 0.8]\<close>, and moves an opacity that is outside back
  towards the interval.
\<close>

theorem opacity_overshoot_bounded:
  assumes "\<forall>k. 0 \<le> rnd k \<and> rnd k < 1"
    and "q = particle_run w h ms (newParticle rnd k w' h')"
  shows "0.2 - \<bar>pulse q\<bar> \<le> opacity q \<and> opacity q \<le> 0.8 + \<bar>pulse q\<bar>
       \<and> \<bar>pulse q\<bar> = pulse (newParticle rnd k w' h')
       \<and> 0.01 \<le> \<bar>pulse q\<bar> \<and> \<bar>pulse q\<bar> < 0.03
       \<and> opacity (updateParticle w h m q) = opacity q + pulse q
       \<and> pulse (updateParticle w h m q) =
           (if 0.8 < opacity q + pulse q \<or> opacity q + pulse q < 0.2 then - pulse q else pulse q)
       \<and> (0.8 < opacity q \<longrightarrow> opacity (updateParticle w h m q) < opacity q)
       \<and> (opacity q < 0.2 \<longrightarrow> opacity q < opacity (updateParticle w h m q))"
proof -
  let ?p = "newParticle rnd k w' h'"
  from assms(1) have r6: "0 \<le> rnd (k + 6)" "rnd (k + 6) < 1"
    and r7: "0 \<le> rnd (k + 7)" "rnd (k + 7) < 1"
    by simp_all
  have o: "opacity ?p = rnd (k + 6) * 0.5 + 0.3" and d: "pulse ?p = rnd (k + 7) * 0.02 + 0.01"
    by (simp_all add: newParticle_def)
  from r6 r7 have init: "0.3 \<le> opacity ?p" "opacity ?p < 0.8" "0.01 \<le> pulse ?p" "pulse ?p < 0.03"
    unfolding o d by simp_all
  then have "0.2 - \<bar>pulse ?p\<bar> \<le> opacity ?p" "opacity ?p \<le> 0.8 + \<bar>pulse ?p\<bar>"
    "0.8 < opacity ?p \<longrightarrow> pulse ?p < 0" "opacity ?p < 0.2 \<longrightarrow> 0 < pulse ?p"
    by simp_all
  from opacity_invariant_run [OF this, of w h ms] assms(2)
  have inv: "0.2 - \<bar>pulse q\<bar> \<le> opacity q" "opacity q \<le> 0.8 + \<bar>pulse q\<bar>"
     "0.8 < opacity q \<longrightarrow> pulse q < 0" "opacity q < 0.2 \<longrightarrow> 0 < pulse q"
     "\<bar>pulse q\<bar> = \<bar>pulse ?p\<bar>"
    by simp_all
  from init have mag: "\<bar>pulse ?p\<bar> = pulse ?p" by simp
  from inv(5) mag init have "\<bar>pulse q\<bar> = pulse ?p" "0.01 \<le> \<bar>pulse q\<bar>" "\<bar>pulse q\<bar> < 0.03"
    by simp_all
  with inv(1-4) show ?thesis
    unfolding updateParticle_opacity by auto
qed

text \<open>
  The random numbers are \<open>1/2\<close>, except 0.98 for the opacity: the particle is created with
  opacity 0.79 and delta 0.02, is at 0.81 after one update, and at 0.79 after the next.
\<close>

theorem opacity_overshoot_bounded_witness:
  "(0::real) \<le> 0.98 \<and> (0.98::real) < 1 \<and> (0::real) \<le> 0.5 \<and> (0.5::real) < 1
   \<and> opacity (particle_run 800 600 [no_pointer]
                (newParticle (\<lambda>k. if k = 6 then 0.98 else 0.5) 0 800 600)) = 0.81
   \<and> pulse (particle_run 800 600 [no_pointer]
                (newParticle (\<lambda>k. if k = 6 then 0.98 else 0.5) 0 800 600)) = - 0.02
   \<and> 0.8 < opacity (particle_run 800 600 [no_pointer]
                (newParticle (\<lambda>k. if k = 6 then 0.98 else 0.5) 0 800 600))
   \<and> opacity (particle_run 800 600 [no_pointer]
                (newParticle (\<lambda>k. if k = 6 then 0.98 else 0.5) 0 800 600))
       \<le> 0.8 + \<bar>pulse (particle_run 800 600 [no_pointer]
                (newParticle (\<lambda>k. if k = 6 then 0.98 else 0.5) 0 800 600))\<bar>
   \<and> opacity (updateParticle 800 600 no_pointer
        (particle_run 800 600 [no_pointer]
           (newParticle (\<lambda>k. if k = 6 then 0.98 else 0.5) 0 800 600)))
       < opacity (particle_run 800 600 [no_pointer]
                (newParticle (\<lambda>k. if k = 6 then 0.98 else 0.5) 0 800 600))"
  using opacity_overshoot_bounded
          [of "\<lambda>k. if k = 6 then 0.98 else 0.5" _ 800 600 "[no_pointer]" 0 800 600 no_pointer,
           OF _ refl]
  by (simp add: updateParticle_opacity newParticle_def)

text \<open>
  C3 as stated fails: a particle created with opacity 0.79 and delta 0.02 (the random
  numbers 0.98 and 0.5) has opacity 0.81 after its first update.
\<close>

theorem opacity_bounds_counterexample:
  "\<not> (0.2 \<le> opacity (updateParticle 800 600 no_pointer
                 (newParticle (\<lambda>k. if k = 6 then 0.98 else 0.5) 0 800 600))
      \<and> opacity (updateParticle 800 600 no_pointer
                 (newParticle (\<lambda>k. if k = 6 then 0.98 else 0.5) 0 800 600)) \<le> 0.8)"
  by (simp add: updateParticle_opacity newParticle_def)

subsection \<open>The update step\<close>

text \<open>
  C4, as the code has it. Let \<open>q\<close> be the particle after one update. (a) and (c): its
  position is the old position plus the old velocity, put on the far edge when that is
  below 0 and on 0 when it is above the canvas size. (b): its opacity is the old opacity
  plus the delta, and the delta changes sign exactly when the new opacity is outside
  \<open>[0.2, 0.8]\<close>. (d) and (e): when the pointer is set and closer than 100 to \<open>q\<close>, each
  velocity component is the old one plus \<open>0.001 * ((100 - distance) / 100)\<close> times the
  offset of the pointer from \<open>q\<close> on that axis, clamped to \<open>[-2, 2]\<close>, then multiplied by
  0.99; when the pointer is not set or at distance 100 or more, it is the old one multiplied
  by 0.99. Size and colour do not change.
\<close>

theorem updateParticle_step:
  assumes "q = updateParticle w h m p"
  shows "px q = (if px p + vx p < 0 then real w
                 else if real w < px p + vx p then 0 else px p + vx p)
       \<and> py q = (if py p + vy p < 0 then real h
                 else if real h < py p + vy p then 0 else py p + vy p)
       \<and> opacity q = opacity p + pulse p
       \<and> pulse q = (if 0.8 < opacity p + pulse p \<or> opacity p + pulse p < 0.2
                    then - pulse p else pulse p)
       \<and> psize q = psize p \<and> color q = color p
       \<and> (mouse_x m = Some mx \<and> mouse_y m = Some my
            \<and> sqrt ((mx - px q)\<^sup>2 + (my - py q)\<^sup>2) < 100 \<longrightarrow>
          vx q = 0.99 * max (- 2) (min 2 (vx p
                   + 0.001 * ((100 - sqrt ((mx - px q)\<^sup>2 + (my - py q)\<^sup>2)) / 100) * (mx - px q)))
          \<and> vy q = 0.99 * max (- 2) (min 2 (vy p
                   + 0.001 * ((100 - sqrt ((mx - px q)\<^sup>2 + (my - py q)\<^sup>2)) / 100) * (my - py q))))
       \<and> (mouse_x m = None \<or> mouse_y m = None
            \<or> (mouse_x m = Some mx \<and> mouse_y m = Some my
                \<and> 100 \<le> sqrt ((mx - px q)\<^sup>2 + (my - py q)\<^sup>2)) \<longrightarrow>
          vx q = 0.99 * vx p \<and> vy q = 0.99 * vy p)"
proof -
  let ?b = "before_mouse w h p"
  have pos: "px q = px ?b" "py q = py ?b"
    by (simp_all add: assms updateParticle_position)
  have position: "px q = (if px p + vx p < 0 then real w
                 else if real w < px p + vx p then 0 else px p + vx p)"
       "py q = (if py p + vy p < 0 then real h
                 else if real h < py p + vy p then 0 else py p + vy p)"
    by (simp_all only: pos before_mouse_position)
  have rest: "opacity q = opacity p + pulse p"
    "pulse q = (if 0.8 < opacity p + pulse p \<or> opacity p + pulse p < 0.2
                then - pulse p else pulse p)"
    "psize q = psize p" "color q = color p"
    by (simp_all add: assms updateParticle_opacity updateParticle_size_color)
  have near: "vx q = 0.99 * max (- 2) (min 2 (vx p
                   + 0.001 * ((100 - sqrt ((mx - px q)\<^sup>2 + (my - py q)\<^sup>2)) / 100) * (mx - px q)))
          \<and> vy q = 0.99 * max (- 2) (min 2 (vy p
                   + 0.001 * ((100 - sqrt ((mx - px q)\<^sup>2 + (my - py q)\<^sup>2)) / 100) * (my - py q)))"
    if "mouse_x m = Some mx \<and> mouse_y m = Some my
        \<and> sqrt ((mx - px q)\<^sup>2 + (my - py q)\<^sup>2) < 100"
  proof -
    from that have "mouse_x m = Some mx" "mouse_y m = Some my"
      "sqrt ((mx - px ?b)\<^sup>2 + (my - py ?b)\<^sup>2) < 100"
      by (simp_all add: pos)
    from mouse_interaction_near [OF this]
    show ?thesis
      unfolding pos
      by (simp add: assms updateParticle_def apply_friction_fields before_mouse_velocity)
  qed
  have far: "vx q = 0.99 * vx p \<and> vy q = 0.99 * vy p"
    if "mouse_x m = None \<or> mouse_y m = None
            \<or> (mouse_x m = Some mx \<and> mouse_y m = Some my
                \<and> 100 \<le> sqrt ((mx - px q)\<^sup>2 + (my - py q)\<^sup>2))"
  proof -
    from that have "mouse_x m = None \<or> mouse_y m = None
            \<or> (mouse_x m = Some mx \<and> mouse_y m = Some my
                \<and> 100 \<le> sqrt ((mx - px ?b)\<^sup>2 + (my - py ?b)\<^sup>2))"
      by (simp add: pos)
    then have "mouse_interaction m ?b = ?b"
      by (rule mouse_interaction_far)
    then show ?thesis
      by (simp add: assms updateParticle_def apply_friction_fields before_mouse_velocity)
  qed
  from position rest near far show ?thesis by blast
qed

text \<open>
  A particle at \<open>(10, 20)\<close> moving by \<open>(1, -1)\<close> on a canvas of 800 by 600: with the pointer
  at \<open>(14, 23)\<close> it is at \<open>(11, 19)\<close> and at distance 5 after the move, and gains
  \<open>0.001 * 0.95 * 3\<close> and \<open>0.001 * 0.95 * 4\<close>; with the pointer at \<open>(500, 20)\<close> it only
  loses speed.
\<close>

theorem updateParticle_step_witness:
  "mouse_x (pointer_at 14 23) = Some 14 \<and> mouse_y (pointer_at 14 23) = Some 23
   \<and> px (updateParticle 800 600 (pointer_at 14 23) (example_particle 10 20 1 (- 1))) = 11
   \<and> py (updateParticle 800 600 (pointer_at 14 23) (example_particle 10 20 1 (- 1))) = 19
   \<and> sqrt ((14 - 11)\<^sup>2 + (23 - 19)\<^sup>2) < 100
   \<and> vx (updateParticle 800 600 (pointer_at 14 23) (example_particle 10 20 1 (- 1)))
       = 0.99 * (1 + 0.001 * (95 / 100) * 3)
   \<and> vy (updateParticle 800 600 (pointer_at 14 23) (example_particle 10 20 1 (- 1)))
       = 0.99 * (- 1 + 0.001 * (95 / 100) * 4)
   \<and> mouse_x (pointer_at 500 20) = Some 500 \<and> mouse_y (pointer_at 500 20) = Some 20
   \<and> 100 \<le> sqrt ((500 - 11)\<^sup>2 + (20 - 19)\<^sup>2)
   \<and> vx (updateParticle 800 600 (pointer_at 500 20) (example_particle 10 20 1 (- 1))) = 0.99 * 1
   \<and> vy (updateParticle 800 600 (pointer_at 500 20) (example_particle 10 20 1 (- 1))) = 0.99 * (- 1)"
proof -
  have pos: "px (updateParticle 800 600 m (example_particle 10 20 1 (- 1))) = 11"
    "py (updateParticle 800 600 m (example_particle 10 20 1 (- 1))) = 19" for m
    by (simp_all add: updateParticle_position before_mouse_position example_defs)
  have inputs: "mouse_x (pointer_at a b) = Some a" "mouse_y (pointer_at a b) = Some b"
    "vx (example_particle a b c d) = c" "vy (example_particle a b c d) = d" for a b c d
    by (simp_all add: example_defs)
  show ?thesis
    using updateParticle_step [OF refl, of 800 600 "pointer_at 14 23"
            "example_particle 10 20 1 (- 1)" 14 23]
      updateParticle_step [OF refl, of 800 600 "pointer_at 500 20"
            "example_particle 10 20 1 (- 1)" 500 20]
    unfolding pos inputs
    by (simp add: sqrt_25 sqrt_ge_100)
qed

text \<open>
  C4 as stated fails at (d): the velocity gained is not a constant times
  \<open>(100 - distance) / 100\<close>. A particle at rest at \<open>(10, 10)\<close> gains \<open>0.001 * 0.99 * 1\<close> from a
  pointer at distance 1 and \<open>0.001 * 0.5 * 50\<close> from a pointer at distance 50 in the same
  direction (the results divided by the friction 0.99), so the gain divided by
  \<open>(100 - distance) / 100\<close> is 0.001 in the first case and 0.05 in the second.
\<close>

theorem attraction_not_proportional_counterexample:
  "vx (updateParticle 800 600 (pointer_at 11 10) (example_particle 10 10 0 0)) / 0.99
     = 0.001 * 0.99 * 1
   \<and> vx (updateParticle 800 600 (pointer_at 60 10) (example_particle 10 10 0 0)) / 0.99
     = 0.001 * 0.5 * 50
   \<and> vx (updateParticle 800 600 (pointer_at 11 10) (example_particle 10 10 0 0)) / 0.99
       / ((100 - 1) / 100)
     \<noteq> vx (updateParticle 800 600 (pointer_at 60 10) (example_particle 10 10 0 0)) / 0.99
       / ((100 - 50) / 100)"
  by (simp add: updateParticle_def before_mouse_def mouse_interaction_def phase_fields
        apply_friction_fields example_defs Let_def sqrt_2500)

subsection \<open>Connection lines\<close>

text \<open>
  C5, as the code has it. \<open>drawConnections\<close> strokes a line for the particles \<open>i < j\<close>
  exactly when their distance is below 120, with opacity \<open>(1 - distance / 120) * 0.2\<close>, which
  is positive and at most 0.2. Two particles exactly 120 apart get no line. Two particles
  at distance 0 get a line of opacity 0.2.
\<close>

theorem connections_below_threshold:
  "((i, j, a) \<in> set (connections ps) \<longleftrightarrow>
      i < j \<and> j < length ps \<and> pair_distance ps i j < 120
      \<and> a = (1 - pair_distance ps i j / 120) * 0.2)
   \<and> (pair_distance ps i j = 120 \<longrightarrow> (i, j, a) \<notin> set (connections ps))
   \<and> (i < j \<and> j < length ps \<and> pair_distance ps i j = 0 \<longrightarrow> (i, j, 0.2) \<in> set (connections ps))
   \<and> ((i, j, a) \<in> set (connections ps) \<longrightarrow> 0 < a \<and> a \<le> 0.2)"
proof -
  have "0 \<le> pair_distance ps i j"
    by (simp add: pair_distance_def Let_def)
  then show ?thesis
    unfolding connections_iff [of i j a ps] connections_iff [of i j "0.2" ps]
    by auto
qed

text \<open>
  Three particles, two at \<open>(100, 50)\<close> and one at \<open>(220, 50)\<close>: the first two are joined
  with opacity 0.2, the first and the third are 120 apart and not joined.
\<close>

theorem connections_below_threshold_witness:
  "pair_distance [example_particle 100 50 0 0, example_particle 100 50 0 0,
                  example_particle 220 50 0 0] 0 2 = 120
   \<and> (0, 2, 0) \<notin> set (connections [example_particle 100 50 0 0, example_particle 100 50 0 0,
                                    example_particle 220 50 0 0])
   \<and> (0::nat) < 1
   \<and> (1::nat) < length [example_particle 100 50 0 0, example_particle 100 50 0 0,
                        example_particle 220 50 0 0]
   \<and> pair_distance [example_particle 100 50 0 0, example_particle 100 50 0 0,
                    example_particle 220 50 0 0] 0 1 = 0
   \<and> (0, 1, 0.2) \<in> set (connections [example_particle 100 50 0 0, example_particle 100 50 0 0,
                                      example_particle 220 50 0 0])
   \<and> (0::real) < 0.2 \<and> (0.2::real) \<le> 0.2"
  using connections_below_threshold [of 0 2 0 "[example_particle 100 50 0 0,
          example_particle 100 50 0 0, example_particle 220 50 0 0]"]
    connections_below_threshold [of 0 1 "0.2" "[example_particle 100 50 0 0,
          example_particle 100 50 0 0, example_particle 220 50 0 0]"]
  by (simp add: pair_distance_def example_defs Let_def sqrt_14400)

text \<open>
  C5 as stated fails: for two particles exactly 120 apart \<open>drawConnections\<close> strokes nothing,
  so there is no line of opacity 0.
\<close>

theorem connection_at_threshold_counterexample:
  "pair_distance [example_particle 100 50 0 0, example_particle 220 50 0 0] 0 1 = 120
   \<and> drawConnections [example_particle 100 50 0 0, example_particle 220 50 0 0] = []"
  by (simp add: drawConnections_def connections_def pair_distance_def maxDistance_def Let_def
        example_defs sqrt_14400)

subsection \<open>Resize\<close>

text \<open>
  C7. The resize listener replaces the particles by new ones that do not depend on the old
  ones, and their number follows the three tiers: 30 when the width is below 768 or the
  hardware concurrency is 1, 2 or 3; otherwise 50 when the width is below 1024; otherwise
  80. With a hardware concurrency of 4 or more that is 30 at width 500, 50 at width 900 and
  80 at width 1400.
\<close>

theorem resize_recreates_by_tier:
  "particles (on_resize env rnd s) = particles (on_resize env rnd (s\<lparr>particles := ps\<rparr>))
   \<and> particleCount (on_resize env rnd s) = length (particles (on_resize env rnd s))
   \<and> length (particles (on_resize env rnd s)) =
       (if innerWidth env < 768
           \<or> (case hardwareConcurrency env of None \<Rightarrow> False | Some c \<Rightarrow> 0 < c \<and> c < 4)
        then 30 else if innerWidth env < 1024 then 50 else 80)
   \<and> (hardwareConcurrency env = Some c \<and> 4 \<le> c \<and> innerWidth env = 500 \<longrightarrow>
        length (particles (on_resize env rnd s)) = 30)
   \<and> (hardwareConcurrency env = Some c \<and> 4 \<le> c \<and> innerWidth env = 900 \<longrightarrow>
        length (particles (on_resize env rnd s)) = 50)
   \<and> (hardwareConcurrency env = Some c \<and> 4 \<le> c \<and> innerWidth env = 1400 \<longrightarrow>
        length (particles (on_resize env rnd s)) = 80)"
proof -
  have "getParticleCount env =
      (if innerWidth env < 768
           \<or> (case hardwareConcurrency env of None \<Rightarrow> False | Some c \<Rightarrow> 0 < c \<and> c < 4)
       then 30 else if innerWidth env < 1024 then 50 else 80)"
    by (simp add: getParticleCount_def isLowEnd_def split: option.splits)
  then show ?thesis
    by (simp add: on_resize_fields length_createParticles_loop)
qed

text \<open>
  A system built in a window of width 1400 with hardware concurrency 8, resized to 500, to
  900 and to 1400, and resized to 1400 on a device of hardware concurrency 2.
\<close>

theorem resize_recreates_by_tier_witness:
  "hardwareConcurrency (example_window 500 False) = Some 8 \<and> (4::nat) \<le> 8
   \<and> innerWidth (example_window 500 False) = 500
   \<and> length (particles (on_resize (example_window 500 False) (\<lambda>k. 1 / 2)
         (new_ParticleSystem (example_window 1400 False) (\<lambda>k. 1 / 2)))) = 30
   \<and> innerWidth (example_window 900 False) = 900
   \<and> length (particles (on_resize (example_window 900 False) (\<lambda>k. 1 / 2)
         (new_ParticleSystem (example_window 1400 False) (\<lambda>k. 1 / 2)))) = 50
   \<and> innerWidth (example_window 1400 False) = 1400
   \<and> length (particles (on_resize (example_window 1400 False) (\<lambda>k. 1 / 2)
         (new_ParticleSystem (example_window 1400 False) (\<lambda>k. 1 / 2)))) = 80
   \<and> length (particles (on_resize ((example_window 1400 False)\<lparr>hardwareConcurrency := Some 2\<rparr>)
         (\<lambda>k. 1 / 2) (new_ParticleSystem (example_window 1400 False) (\<lambda>k. 1 / 2)))) = 30"
  using resize_recreates_by_tier [of "example_window 500 False" "\<lambda>k. 1 / 2"
           "new_ParticleSystem (example_window 1400 False) (\<lambda>k. 1 / 2)" _ 8]
    resize_recreates_by_tier [of "example_window 900 False" "\<lambda>k. 1 / 2"
           "new_ParticleSystem (example_window 1400 False) (\<lambda>k. 1 / 2)" _ 8]
    resize_recreates_by_tier [of "example_window 1400 False" "\<lambda>k. 1 / 2"
           "new_ParticleSystem (example_window 1400 False) (\<lambda>k. 1 / 2)" _ 8]
    resize_recreates_by_tier [of "(example_window 1400 False)\<lparr>hardwareConcurrency := Some 2\<rparr>"
           "\<lambda>k. 1 / 2" "new_ParticleSystem (example_window 1400 False) (\<lambda>k. 1 / 2)" _ 8]
  by (simp add: example_window_def)

subsection \<open>Reproducibility\<close>



subsection \<open>The hidden tab\<close>

text \<open>
  C8 on the code. A system is built in a window of width 500 with every random number
  \<open>3/5\<close>, then the tab is hidden. The listener sets \<open>pauseAnimation\<close>, and the next call of
  \<open>animate\<close> still moves the first particle from \<open>x = 300.05\<close> to \<open>x = 300.0995\<close>, draws, and
  asks for another frame: \<open>animate\<close> does not read the flag.
\<close>

theorem hidden_tab_still_animates:
  "pauseAnimation (on_visibilitychange (example_window 500 True)
      (new_ParticleSystem (example_window 500 False) (\<lambda>k. 3 / 5))) = Some True
   \<and> px (hd (particles (on_visibilitychange (example_window 500 True)
      (new_ParticleSystem (example_window 500 False) (\<lambda>k. 3 / 5))))) = 6001 / 20
   \<and> px (hd (particles (after (animate (on_visibilitychange (example_window 500 True)
      (new_ParticleSystem (example_window 500 False) (\<lambda>k. 3 / 5))))))) = 3000995 / 10000
   \<and> drawn (animate (on_visibilitychange (example_window 500 True)
      (new_ParticleSystem (example_window 500 False) (\<lambda>k. 3 / 5)))) \<noteq> []
   \<and> rescheduled (animate (on_visibilitychange (example_window 500 True)
      (new_ParticleSystem (example_window 500 False) (\<lambda>k. 3 / 5))))"
proof -
  let ?s = "new_ParticleSystem (example_window 500 False) (\<lambda>k. 3 / 5)"
  have hid: "example_window 500 True = (example_window 500 False)\<lparr>hidden := True\<rparr>"
    by (simp add: example_window_def)
  have cnt: "getParticleCount (example_window 500 False) = 30"
    by (simp add: example_window_def getParticleCount_def)
  have w: "innerWidth (example_window 500 False) = 500" "innerHeight (example_window 500 False) = 600"
    by (simp_all add: example_window_def)
  have vis: "particles (on_visibilitychange (example_window 500 True) ?s) = particles ?s"
    by (simp add: on_visibilitychange_def)
  have first: "hd (particles ?s) =
      updateParticle 500 600 \<lparr>mouse_x = None, mouse_y = None\<rparr> (newParticle (\<lambda>k. 3 / 5) 0 500 600)"
    by (simp add: new_ParticleSystem_fields cnt w createParticles_loop_numeral)
  have second: "hd (particles (after (animate (on_visibilitychange (example_window 500 True) ?s)))) =
      updateParticle 500 600 \<lparr>mouse_x = None, mouse_y = None\<rparr>
        (updateParticle 500 600 \<lparr>mouse_x = None, mouse_y = None\<rparr>
           (newParticle (\<lambda>k. 3 / 5) 0 500 600))"
    unfolding hid hidden_frame_fields
    by (simp add: new_ParticleSystem_fields cnt w createParticles_loop_numeral)
  show ?thesis
    unfolding first second vis
    unfolding hid hidden_frame_fields
    by (simp add: hidden_frame_fields updateParticle_no_pointer before_mouse_def phase_fields
          newParticle_def)
qed

subsection \<open>Explosions\<close>

text \<open>
  C6 on the code. A burst at \<open>(400, 300)\<close> with every random number \<open>3/5\<close> has 15 particles
  of decay \<open>11/500\<close>, for which \<open>ceil (1 / decay) = 46\<close>. After 46 frames seven of them are
  still in the array with life \<open>1/100\<close>: each was behind a particle removed by \<open>splice\<close> in
  frame 46, and \<open>forEach\<close> passed over it. One particle is left after 48 frames and the
  array is empty only after 49.
\<close>

theorem explosion_survivors:
  "map (\<lambda>p. (life p, decay p, \<lceil>1 / decay p\<rceil>))
       (explosion_frames 46 (createExplosion (\<lambda>k. 3 / 5) 0 400 300)) =
     [(1 / 100, 11 / 500, 46), (1 / 100, 11 / 500, 46), (1 / 100, 11 / 500, 46),
      (1 / 100, 11 / 500, 46), (1 / 100, 11 / 500, 46), (1 / 100, 11 / 500, 46),
      (1 / 100, 11 / 500, 46)]
   \<and> length (explosion_frames 48 (createExplosion (\<lambda>k. 3 / 5) 0 400 300)) = 1
   \<and> explosion_frames 49 (createExplosion (\<lambda>k. 3 / 5) 0 400 300) = []"
proof -
  let ?ps = "createExplosion (\<lambda>k. 3 / 5) 0 400 300"
  have ceil: "\<lceil>1 / (11 / 500 :: real)\<rceil> = 46"
    by (simp add: ceiling_eq_iff)
  have "map (\<lambda>p. (life p, decay p, \<lceil>1 / decay p\<rceil>)) (explosion_frames 46 ?ps)
      = map (\<lambda>l. (fst l, snd l, \<lceil>1 / snd l\<rceil>)) (map life_decay (explosion_frames 46 ?ps))"
    by (simp add: life_decay_def comp_def)
  also have "\<dots> = map (\<lambda>l. (fst l, snd l, \<lceil>1 / snd l\<rceil>))
      [(1 / 100, 11 / 500), (1 / 100, 11 / 500), (1 / 100, 11 / 500), (1 / 100, 11 / 500),
       (1 / 100, 11 / 500), (1 / 100, 11 / 500), (1 / 100, 11 / 500)]"
    by (simp only: survivors_46)
  finally have a: "map (\<lambda>p. (life p, decay p, \<lceil>1 / decay p\<rceil>)) (explosion_frames 46 ?ps) =
     [(1 / 100, 11 / 500, 46), (1 / 100, 11 / 500, 46), (1 / 100, 11 / 500, 46),
      (1 / 100, 11 / 500, 46), (1 / 100, 11 / 500, 46), (1 / 100, 11 / 500, 46),
      (1 / 100, 11 / 500, 46)]"
    using ceil by simp
  have "length (map life_decay (explosion_frames 48 ?ps)) = 1"
    by (simp only: survivors_48) simp
  then have b: "length (explosion_frames 48 ?ps) = 1" by simp
  from survivors_49 have c: "explosion_frames 49 ?ps = []" by simp
  from a b c show ?thesis by simp
qed

end
